theory Spec2Isabelle
  imports Main
begin

section \<open>Alluka's injection descriptors (\<^verbatim>\<open>alluka/_types.py\<close>)\<close>

text \<open>
  The module defines three small classes: \<^verbatim>\<open>InjectedCallback\<close> and \<^verbatim>\<open>InjectedType\<close>, the two
  ways a parameter's value is resolved at call time, and \<^verbatim>\<open>InjectedDescriptor\<close>, the marker a
  caller writes to declare an injected parameter. Resolution talks to two abstract
  collaborators, \<^verbatim>\<open>alluka.abc.Context\<close> and \<^verbatim>\<open>alluka.abc.Client\<close>, whose implementations are not part
  of the module; they are modelled as method tables over an arbitrary type of context objects.
\<close>

subsection \<open>Python values, types and exceptions\<close>

text \<open>
  \<open>UNDEFINED\<close> is the singleton \<^verbatim>\<open>alluka.abc.UNDEFINED\<close>; the source compares against it with
  \<^verbatim>\<open>is not\<close>, which on a singleton is inequality of values. \<open>PyNone\<close> is Python's \<^verbatim>\<open>None\<close>, a
  legitimate value distinct from the sentinel.
\<close>

datatype pyval = UNDEFINED | PyNone | PyInt int | PyStr string | PyObject nat

text \<open>
  A type object is a class, named, or a union of type objects with its members in
  declaration order.
\<close>

datatype pytype = Cls string | Union "pytype list"

text \<open>A callback is an opaque callable reference, identified by name.\<close>

type_synonym CallbackSig = string

text \<open>
  The exceptions the module raises or lets through. \<open>MissingDependencyError\<close> carries the two
  arguments the source gives its constructor: the message and the requested type.
\<close>

datatype error =
    ValueError string
  | MissingDependencyError string pytype
  | AsyncOnlyError

subsection \<open>The abstract collaborators\<close>

text \<open>
  \<^verbatim>\<open>Client.execute_with_ctx(ctx, callback)\<close> and \<^verbatim>\<open>Client.execute_with_ctx_async(ctx, callback)\<close>
  either return a value or raise. A coroutine is represented by the outcome of awaiting it;
  scheduling is not modelled.
\<close>

record 'ctx Client =
  execute_with_ctx :: "'ctx \<Rightarrow> CallbackSig \<Rightarrow> error + pyval"
  execute_with_ctx_async :: "'ctx \<Rightarrow> CallbackSig \<Rightarrow> error + pyval"

text \<open>
  \<^verbatim>\<open>Context.get_type_dependency(type)\<close> returns the value bound to the type or \<open>UNDEFINED\<close>; it is a
  lookup without effects and without failure. \<^verbatim>\<open>Context.injection_client\<close> is the client the
  context is linked to.
\<close>

record 'ctx Context =
  get_type_dependency :: "'ctx \<Rightarrow> pytype \<Rightarrow> pyval"
  injection_client :: "'ctx \<Rightarrow> 'ctx Client"

subsection \<open>\<^verbatim>\<open>InjectedCallback\<close>\<close>

record InjectedCallback =
  callback :: CallbackSig

definition InjectedCallback_init :: "CallbackSig \<Rightarrow> InjectedCallback" where
  "InjectedCallback_init cb = \<lparr>InjectedCallback.callback = cb\<rparr>"

definition InjectedCallback_resolve ::
  "'ctx Context \<Rightarrow> InjectedCallback \<Rightarrow> 'ctx \<Rightarrow> error + pyval" where
  "InjectedCallback_resolve ops self ctx =
     execute_with_ctx (injection_client ops ctx) ctx (InjectedCallback.callback self)"

definition InjectedCallback_resolve_async ::
  "'ctx Context \<Rightarrow> InjectedCallback \<Rightarrow> 'ctx \<Rightarrow> error + pyval" where
  "InjectedCallback_resolve_async ops self ctx =
     execute_with_ctx_async (injection_client ops ctx) ctx (InjectedCallback.callback self)"

subsection \<open>\<^verbatim>\<open>InjectedType\<close>\<close>

record InjectedType =
  default :: pyval
  repr_type :: pytype
  types :: "pytype list"

text \<open>
  The constructor stores its three arguments and has no failing branch. The keyword
  \<^verbatim>\<open>default\<close> is \<open>UNDEFINED\<close> when the caller omits it.
\<close>

definition InjectedType_init :: "pytype \<Rightarrow> pytype list \<Rightarrow> pyval \<Rightarrow> InjectedType" where
  "InjectedType_init r ts d = \<lparr>default = d, repr_type = r, types = ts\<rparr>"

text \<open>
  The \<^verbatim>\<open>for cls in self.types\<close> loop. It yields the value it returns early with, if any, and the
  sequence of types it has passed to \<^verbatim>\<open>ctx.get_type_dependency\<close>, in call order.
\<close>

fun for_cls :: "'ctx Context \<Rightarrow> 'ctx \<Rightarrow> pytype list \<Rightarrow> pyval option \<times> pytype list" where
  "for_cls ops ctx [] = (None, [])"
| "for_cls ops ctx (cls # rest) =
     (let result = get_type_dependency ops ctx cls in
      if result \<noteq> UNDEFINED then (Some result, [cls])
      else (case for_cls ops ctx rest of (r, calls) \<Rightarrow> (r, cls # calls)))"

text \<open>
  What one call of \<^verbatim>\<open>InjectedType.resolve\<close> leaves behind: the value returned or the exception
  raised, the lookups performed, and the descriptor after the call.
\<close>

record resolved =
  returned :: "error + pyval"
  lookups :: "pytype list"
  self_after :: InjectedType

text \<open>
  The message is an f-string that formats \<^verbatim>\<open>self.repr_type\<close>; \<open>py_str\<close> stands for Python's
  built-in formatting of a type object.
\<close>

definition missing_message :: "(pytype \<Rightarrow> string) \<Rightarrow> pytype \<Rightarrow> string" where
  "missing_message py_str r =
     ''Couldn't resolve injected type(s) '' @ py_str r @ '' to actual value''"

definition InjectedType_resolve ::
  "(pytype \<Rightarrow> string) \<Rightarrow> 'ctx Context \<Rightarrow> InjectedType \<Rightarrow> 'ctx \<Rightarrow> resolved" where
  "InjectedType_resolve py_str ops self ctx =
     (case for_cls ops ctx (types self) of
        (Some result, calls) \<Rightarrow>
          \<lparr>returned = Inr result, lookups = calls, self_after = self\<rparr>
      | (None, calls) \<Rightarrow>
          if default self \<noteq> UNDEFINED
          then \<lparr>returned = Inr (default self), lookups = calls, self_after = self\<rparr>
          else \<lparr>returned = Inl (MissingDependencyError
                                   (missing_message py_str (repr_type self)) (repr_type self)),
                lookups = calls, self_after = self\<rparr>)"

subsection \<open>\<^verbatim>\<open>InjectedDescriptor\<close>\<close>

record InjectedDescriptor =
  callback :: "CallbackSig option"
  type :: "pytype option"

text \<open>
  Both keywords are \<^verbatim>\<open>None\<close> when omitted; the two checks are made in the source's order.
\<close>

definition InjectedDescriptor_init ::
  "CallbackSig option \<Rightarrow> pytype option \<Rightarrow> error + InjectedDescriptor" where
  "InjectedDescriptor_init cb ty =
     (if cb = None \<and> ty = None
      then Inl (ValueError ''Must specify one of `callback` or `type`'')
      else if cb \<noteq> None \<and> ty \<noteq> None
      then Inl (ValueError ''Only one of `callback` or `type` can be specified'')
      else Inr \<lparr>callback = cb, type = ty\<rparr>)"

subsection \<open>From a declared type to the candidate sequence\<close>

text \<open>
  Modelled from the spec: the step that turns a declared type into the candidate sequence
  handed to \<^verbatim>\<open>InjectedType\<close>'s constructor belongs to the signature-introspection layer, which
  this module does not contain. The component design words it as "a union type must be
  expanded into its member types at construction, preserving declaration order, with the
  literal/union form itself NOT included as a separate candidate (only its members are
  tried)", and the design notes ask for "flattening arbitrary nested union type expressions
  at construction time into a flat ordered list of concrete types". A type that is not a union
  is its own single candidate.
\<close>

fun member_types :: "pytype \<Rightarrow> pytype list" where
  "member_types (Cls n) = [Cls n]"
| "member_types (Union ts) = concat (map member_types ts)"

text \<open>The class of \<^verbatim>\<open>None\<close>, as it appears among the members of \<^verbatim>\<open>Optional[T]\<close>.\<close>

definition NoneType :: pytype where
  "NoneType = Cls ''NoneType''"

text \<open>
  Modelled from the spec: the descriptor built for a declared type, which the same missing
  layer constructs. Its candidates are the member types. The default follows the docstring of
  \<^verbatim>\<open>InjectedDescriptor.__init__\<close>: "If a union has `None` as one of its types (including
  `Optional[T]`) then `None` will be passed for the parameter if none of the types could be
  resolved"; a default the caller gives is kept.
\<close>

definition declared_type :: "pytype \<Rightarrow> pyval \<Rightarrow> InjectedType" where
  "declared_type t d =
     InjectedType_init t (member_types t)
       (case t of
          Union ts \<Rightarrow> if d = UNDEFINED \<and> NoneType \<in> set (member_types t) then PyNone else d
        | Cls n \<Rightarrow> d)"

subsection \<open>The module's operations on a store of objects\<close>

text \<open>
  To speak of what happens to a descriptor after its construction, the objects the module
  creates are kept in a store, addressed by position; a constructor that returns appends its
  object, a constructor that raises leaves nothing behind.
\<close>

datatype object =
    ObjCallback InjectedCallback
  | ObjType InjectedType
  | ObjDescriptor InjectedDescriptor

type_synonym store = "object list"

text \<open>
  The operations are the methods the three classes define: the constructors and the resolving
  methods, the latter called on the object at an address. \<^verbatim>\<open>InjectedDescriptor\<close> defines no method
  besides its constructor.
\<close>

datatype 'ctx operation =
    NewInjectedCallback CallbackSig
  | NewInjectedType pytype "pytype list" pyval
  | NewInjectedDescriptor "CallbackSig option" "pytype option"
  | CallbackResolve nat 'ctx
  | CallbackResolveAsync nat 'ctx
  | TypeResolve nat 'ctx

text \<open>
  The store after one operation. A resolving method called on an address that holds no object
  of its class is Python's \<^verbatim>\<open>AttributeError\<close> and changes nothing. \<^verbatim>\<open>InjectedType.resolve\<close> leaves at
  its address the descriptor it ends with; the callback methods only return the client's
  outcome.
\<close>

fun exec :: "(pytype \<Rightarrow> string) \<Rightarrow> 'ctx Context \<Rightarrow> store \<Rightarrow> 'ctx operation \<Rightarrow> store" where
  "exec py_str ops h (NewInjectedCallback cb) = h @ [ObjCallback (InjectedCallback_init cb)]"
| "exec py_str ops h (NewInjectedType r ts d) = h @ [ObjType (InjectedType_init r ts d)]"
| "exec py_str ops h (NewInjectedDescriptor cb ty) =
     (case InjectedDescriptor_init cb ty of
        Inl e \<Rightarrow> h
      | Inr d \<Rightarrow> h @ [ObjDescriptor d])"
| "exec py_str ops h (CallbackResolve a ctx) = h"
| "exec py_str ops h (CallbackResolveAsync a ctx) = h"
| "exec py_str ops h (TypeResolve a ctx) =
     (if a < length h
      then (case h ! a of
              ObjType self \<Rightarrow>
                h[a := ObjType (self_after (InjectedType_resolve py_str ops self ctx))]
            | ObjCallback c \<Rightarrow> h
            | ObjDescriptor d \<Rightarrow> h)
      else h)"

text \<open>The store after a sequence of operations, run in order from a given store.\<close>

definition run :: "(pytype \<Rightarrow> string) \<Rightarrow> 'ctx Context \<Rightarrow> store \<Rightarrow> 'ctx operation list \<Rightarrow> store" where
  "run py_str ops h os = foldl (exec py_str ops) h os"


subsection \<open>A registry-backed context, for concrete runs\<close>

text \<open>
  A context whose state is a finite table of type bindings; an unbound type looks up as
  \<open>UNDEFINED\<close>. Its client runs no callbacks: the blocking path refuses with
  \<open>AsyncOnlyError\<close>, the suspending path answers with the callback's name.
\<close>

type_synonym registry = "(pytype \<times> pyval) list"

definition registry_client :: "registry Client" where
  "registry_client =
     \<lparr>execute_with_ctx = (\<lambda>ctx cb. Inl AsyncOnlyError),
      execute_with_ctx_async = (\<lambda>ctx cb. Inr (PyStr cb))\<rparr>"

definition registry_context :: "registry Context" where
  "registry_context =
     \<lparr>get_type_dependency =
        (\<lambda>ctx cls. case map_of ctx cls of None \<Rightarrow> UNDEFINED | Some v \<Rightarrow> v),
      injection_client = (\<lambda>ctx. registry_client)\<rparr>"

text \<open>A formatting of type objects to run \<open>py_str\<close> with: a class prints as its name.\<close>

definition type_name :: "pytype \<Rightarrow> string" where
  "type_name t = (case t of Cls n \<Rightarrow> n | Union ts \<Rightarrow> ''Union'')"

section \<open>Properties of the candidate loop\<close>

lemma for_cls_first_defined:
  assumes "\<forall>c \<in> set pre. get_type_dependency ops ctx c = UNDEFINED"
    and "get_type_dependency ops ctx cls \<noteq> UNDEFINED"
  shows "for_cls ops ctx (pre @ cls # post) = (Some (get_type_dependency ops ctx cls), pre @ [cls])"
  using assms by (induction pre) simp_all

lemma for_cls_none_defined:
  assumes "\<forall>c \<in> set ts. get_type_dependency ops ctx c = UNDEFINED"
  shows "for_cls ops ctx ts = (None, ts)"
  using assms by (induction ts) simp_all

lemma for_cls_None_iff:
  "fst (for_cls ops ctx ts) = None \<longleftrightarrow>
     (\<forall>c \<in> set ts. get_type_dependency ops ctx c = UNDEFINED)"
  by (induction ts) (auto simp: Let_def split: prod.splits)

lemma for_cls_Some:
  "for_cls ops ctx ts = (Some v, calls) \<Longrightarrow>
     v \<noteq> UNDEFINED \<and> (\<exists>c \<in> set ts. v = get_type_dependency ops ctx c)"
  by (induction ts arbitrary: calls) (auto simp: Let_def split: prod.splits if_splits)

lemma for_cls_cong:
  "\<forall>c \<in> set ts. get_type_dependency ops1 ctx1 c = get_type_dependency ops2 ctx2 c \<Longrightarrow>
     for_cls ops1 ctx1 ts = for_cls ops2 ctx2 ts"
  by (induction ts) (simp_all add: Let_def)

lemma self_after_resolve: "self_after (InjectedType_resolve py_str ops self ctx) = self"
  by (simp add: InjectedType_resolve_def split: prod.splits option.splits)

section \<open>Type-variant resolution\<close>

text \<open>
  C1. \<^verbatim>\<open>InjectedType.resolve\<close> looks the candidate types up in declaration order and returns the
  value of the first candidate whose lookup is not \<open>UNDEFINED\<close>: when every candidate before
  \<open>cls\<close> is undefined and \<open>cls\<close> is defined, the call returns the value bound to \<open>cls\<close>, and the
  lookups it has performed are exactly the candidates up to and including \<open>cls\<close>, in order.
  With candidates \<open>[A, B]\<close> both bound this is the value of \<open>A\<close>; with only \<open>B\<close> bound it is
  the value of \<open>B\<close>.
\<close>

theorem resolve_first_defined_in_order:
  assumes "types self = pre @ cls # post"
    and "\<forall>c \<in> set pre. get_type_dependency ops ctx c = UNDEFINED"
    and "get_type_dependency ops ctx cls \<noteq> UNDEFINED"
  shows "InjectedType_resolve py_str ops self ctx =
           \<lparr>returned = Inr (get_type_dependency ops ctx cls),
            lookups = pre @ [cls], self_after = self\<rparr>"
  using assms for_cls_first_defined [of pre ops ctx cls post]
  by (simp add: InjectedType_resolve_def)

theorem resolve_first_defined_in_order_witness:
  "get_type_dependency registry_context [(Cls ''A'', PyInt 1), (Cls ''B'', PyInt 2)] (Cls ''A'') = PyInt 1
   \<and> InjectedType_resolve type_name registry_context
        (InjectedType_init (Union [Cls ''A'', Cls ''B'']) [Cls ''A'', Cls ''B''] UNDEFINED)
        [(Cls ''A'', PyInt 1), (Cls ''B'', PyInt 2)]
      = \<lparr>returned = Inr (PyInt 1), lookups = [Cls ''A''],
         self_after = InjectedType_init (Union [Cls ''A'', Cls ''B'']) [Cls ''A'', Cls ''B''] UNDEFINED\<rparr>
   \<and> get_type_dependency registry_context [(Cls ''B'', PyInt 2)] (Cls ''A'') = UNDEFINED
   \<and> get_type_dependency registry_context [(Cls ''B'', PyInt 2)] (Cls ''B'') = PyInt 2
   \<and> InjectedType_resolve type_name registry_context
        (InjectedType_init (Union [Cls ''A'', Cls ''B'']) [Cls ''A'', Cls ''B''] UNDEFINED)
        [(Cls ''B'', PyInt 2)]
      = \<lparr>returned = Inr (PyInt 2), lookups = [Cls ''A'', Cls ''B''],
         self_after = InjectedType_init (Union [Cls ''A'', Cls ''B'']) [Cls ''A'', Cls ''B''] UNDEFINED\<rparr>"
  using resolve_first_defined_in_order
          [of "InjectedType_init (Union [Cls ''A'', Cls ''B'']) [Cls ''A'', Cls ''B''] UNDEFINED"
              "[]" "Cls ''A''" "[Cls ''B'']" registry_context
              "[(Cls ''A'', PyInt 1), (Cls ''B'', PyInt 2)]" type_name]
        resolve_first_defined_in_order
          [of "InjectedType_init (Union [Cls ''A'', Cls ''B'']) [Cls ''A'', Cls ''B''] UNDEFINED"
              "[Cls ''A'']" "Cls ''B''" "[]" registry_context
              "[(Cls ''B'', PyInt 2)]" type_name]
  by (simp add: InjectedType_init_def registry_context_def)

text \<open>
  C2. A descriptor without a default (its default is \<open>UNDEFINED\<close>) resolved in a context where
  the lookup of every candidate is \<open>UNDEFINED\<close> raises \<open>MissingDependencyError\<close>, after looking
  every candidate up; the exception carries a message that embeds the formatted \<open>repr_type\<close>,
  and \<open>repr_type\<close> itself. Conversely, whenever \<^verbatim>\<open>resolve\<close> raises, the descriptor has no default,
  every candidate is undefined, and the exception is that one. The lookup itself does not raise:
  that is the contract of \<^verbatim>\<open>get_type_dependency\<close>.
\<close>

theorem resolve_raises_iff:
  "(default self = UNDEFINED \<and> (\<forall>c \<in> set (types self). get_type_dependency ops ctx c = UNDEFINED)
      \<longrightarrow> InjectedType_resolve py_str ops self ctx =
            \<lparr>returned = Inl (MissingDependencyError
                               (''Couldn't resolve injected type(s) '' @ py_str (repr_type self)
                                 @ '' to actual value'') (repr_type self)),
             lookups = types self, self_after = self\<rparr>)
   \<and> (\<forall>e. returned (InjectedType_resolve py_str ops self ctx) = Inl e
      \<longrightarrow> default self = UNDEFINED
          \<and> (\<forall>c \<in> set (types self). get_type_dependency ops ctx c = UNDEFINED)
          \<and> e = MissingDependencyError (missing_message py_str (repr_type self)) (repr_type self))"
proof (intro conjI impI allI)
  assume "default self = UNDEFINED \<and> (\<forall>c \<in> set (types self). get_type_dependency ops ctx c = UNDEFINED)"
  then show "InjectedType_resolve py_str ops self ctx =
            \<lparr>returned = Inl (MissingDependencyError
                               (''Couldn't resolve injected type(s) '' @ py_str (repr_type self)
                                 @ '' to actual value'') (repr_type self)),
             lookups = types self, self_after = self\<rparr>"
    using for_cls_none_defined [of "types self" ops ctx]
    by (simp add: InjectedType_resolve_def missing_message_def)
next
  fix e
  assume r: "returned (InjectedType_resolve py_str ops self ctx) = Inl e"
  obtain r0 calls where f: "for_cls ops ctx (types self) = (r0, calls)"
    by (cases "for_cls ops ctx (types self)")
  from r f have n: "r0 = None" and d: "default self = UNDEFINED"
    and e: "e = MissingDependencyError (missing_message py_str (repr_type self)) (repr_type self)"
    by (auto simp: InjectedType_resolve_def split: option.splits if_splits)
  from f n have "\<forall>c \<in> set (types self). get_type_dependency ops ctx c = UNDEFINED"
    using for_cls_None_iff [of ops ctx "types self"] by simp
  with d e show "default self = UNDEFINED" 
    "\<forall>c \<in> set (types self). get_type_dependency ops ctx c = UNDEFINED"
    "e = MissingDependencyError (missing_message py_str (repr_type self)) (repr_type self)"
    by simp_all
qed

theorem resolve_raises_iff_witness:
  "default (InjectedType_init (Cls ''A'') [Cls ''A'', Cls ''B''] UNDEFINED) = UNDEFINED
   \<and> get_type_dependency registry_context [(Cls ''C'', PyInt 3)] (Cls ''A'') = UNDEFINED
   \<and> get_type_dependency registry_context [(Cls ''C'', PyInt 3)] (Cls ''B'') = UNDEFINED
   \<and> InjectedType_resolve type_name registry_context
        (InjectedType_init (Cls ''A'') [Cls ''A'', Cls ''B''] UNDEFINED) [(Cls ''C'', PyInt 3)]
      = \<lparr>returned = Inl (MissingDependencyError
                          ''Couldn't resolve injected type(s) A to actual value'' (Cls ''A'')),
         lookups = [Cls ''A'', Cls ''B''],
         self_after = InjectedType_init (Cls ''A'') [Cls ''A'', Cls ''B''] UNDEFINED\<rparr>"
  using resolve_raises_iff
          [of "InjectedType_init (Cls ''A'') [Cls ''A'', Cls ''B''] UNDEFINED"
              registry_context "[(Cls ''C'', PyInt 3)]" type_name]
  by (simp add: InjectedType_init_def registry_context_def type_name_def)

text \<open>
  C3. A descriptor whose default \<open>D\<close> is not \<open>UNDEFINED\<close> (\<open>D\<close> may be \<open>PyNone\<close>), resolved in a
  context where the lookup of every candidate is \<open>UNDEFINED\<close>, returns \<open>D\<close> and does not raise; it
  has looked every candidate up before falling back.
\<close>

theorem resolve_falls_back_to_default:
  assumes "default self \<noteq> UNDEFINED"
    and "\<forall>c \<in> set (types self). get_type_dependency ops ctx c = UNDEFINED"
  shows "InjectedType_resolve py_str ops self ctx =
           \<lparr>returned = Inr (default self), lookups = types self, self_after = self\<rparr>"
  using assms for_cls_none_defined [of "types self" ops ctx]
  by (simp add: InjectedType_resolve_def)

theorem resolve_falls_back_to_default_witness:
  "default (InjectedType_init (Cls ''A'') [Cls ''A'', Cls ''B''] PyNone) = PyNone
   \<and> get_type_dependency registry_context [(Cls ''C'', PyInt 3)] (Cls ''A'') = UNDEFINED
   \<and> get_type_dependency registry_context [(Cls ''C'', PyInt 3)] (Cls ''B'') = UNDEFINED
   \<and> InjectedType_resolve type_name registry_context
        (InjectedType_init (Cls ''A'') [Cls ''A'', Cls ''B''] PyNone) [(Cls ''C'', PyInt 3)]
      = \<lparr>returned = Inr PyNone, lookups = [Cls ''A'', Cls ''B''],
         self_after = InjectedType_init (Cls ''A'') [Cls ''A'', Cls ''B''] PyNone\<rparr>"
  using resolve_falls_back_to_default
          [of "InjectedType_init (Cls ''A'') [Cls ''A'', Cls ''B''] PyNone"
              registry_context "[(Cls ''C'', PyInt 3)]" type_name]
  by (simp add: InjectedType_init_def registry_context_def)

text \<open>
  C7. \<^verbatim>\<open>InjectedType.resolve\<close> never hands \<open>UNDEFINED\<close> to its caller: a value it returns is not the
  sentinel, and it is the lookup result of one of the candidates or the descriptor's default.
  Every other outcome is an exception.
\<close>

theorem resolve_never_returns_undefined:
  "returned (InjectedType_resolve py_str ops self ctx) \<noteq> Inr UNDEFINED
   \<and> (\<forall>v. returned (InjectedType_resolve py_str ops self ctx) = Inr v \<longrightarrow>
         v \<noteq> UNDEFINED
         \<and> ((\<exists>c \<in> set (types self). v = get_type_dependency ops ctx c) \<or> v = default self))"
proof -
  obtain r0 calls where f: "for_cls ops ctx (types self) = (r0, calls)"
    by (cases "for_cls ops ctx (types self)")
  have main: "v \<noteq> UNDEFINED
      \<and> ((\<exists>c \<in> set (types self). v = get_type_dependency ops ctx c) \<or> v = default self)"
    if r: "returned (InjectedType_resolve py_str ops self ctx) = Inr v" for v
  proof (cases r0)
    case None
    with r f show ?thesis
      by (auto simp: InjectedType_resolve_def split: if_splits)
  next
    case (Some w)
    with r f have "v = w"
      by (simp add: InjectedType_resolve_def)
    with f Some for_cls_Some [of ops ctx "types self" v calls] show ?thesis
      by simp
  qed
  then show ?thesis by blast
qed

theorem resolve_never_returns_undefined_witness:
  "returned (InjectedType_resolve type_name registry_context
        (InjectedType_init (Cls ''A'') [Cls ''A'', Cls ''B''] UNDEFINED) [(Cls ''B'', PyInt 2)])
     = Inr (PyInt 2)
   \<and> returned (InjectedType_resolve type_name registry_context
        (InjectedType_init (Cls ''A'') [Cls ''A'', Cls ''B''] UNDEFINED) [(Cls ''B'', PyInt 2)])
     \<noteq> Inr UNDEFINED
   \<and> PyInt 2 \<noteq> UNDEFINED"
  using resolve_never_returns_undefined
          [of type_name registry_context
              "InjectedType_init (Cls ''A'') [Cls ''A'', Cls ''B''] UNDEFINED"
              "[(Cls ''B'', PyInt 2)]"]
  by (simp add: InjectedType_resolve_def InjectedType_init_def registry_context_def)

text \<open>
  C8. Resolving one descriptor against two contexts that bind every type alike gives the same
  outcome, value or exception, and the same lookups; and the descriptor after the call is the
  descriptor before it, so \<open>default\<close>, \<open>repr_type\<close> and \<open>types\<close> are unchanged. The two contexts
  may be of different classes.
\<close>

theorem resolve_same_bindings_same_result:
  assumes "\<forall>cls. get_type_dependency ops1 ctx1 cls = get_type_dependency ops2 ctx2 cls"
  shows "InjectedType_resolve py_str ops1 self ctx1 = InjectedType_resolve py_str ops2 self ctx2
    \<and> self_after (InjectedType_resolve py_str ops1 self ctx1) = self
    \<and> default (self_after (InjectedType_resolve py_str ops1 self ctx1)) = default self
    \<and> repr_type (self_after (InjectedType_resolve py_str ops1 self ctx1)) = repr_type self
    \<and> types (self_after (InjectedType_resolve py_str ops1 self ctx1)) = types self"
proof -
  from assms have "for_cls ops1 ctx1 (types self) = for_cls ops2 ctx2 (types self)"
    by (intro for_cls_cong) simp
  then have "InjectedType_resolve py_str ops1 self ctx1 = InjectedType_resolve py_str ops2 self ctx2"
    by (simp add: InjectedType_resolve_def)
  then show ?thesis
    by (simp add: self_after_resolve)
qed

theorem resolve_same_bindings_same_result_witness:
  "InjectedType_resolve type_name registry_context
       (InjectedType_init (Cls ''A'') [Cls ''A'', Cls ''B''] UNDEFINED)
       [(Cls ''B'', PyInt 2), (Cls ''C'', PyInt 3)]
     = InjectedType_resolve type_name registry_context
       (InjectedType_init (Cls ''A'') [Cls ''A'', Cls ''B''] UNDEFINED)
       [(Cls ''C'', PyInt 3), (Cls ''B'', PyInt 2)]
   \<and> self_after (InjectedType_resolve type_name registry_context
       (InjectedType_init (Cls ''A'') [Cls ''A'', Cls ''B''] UNDEFINED)
       [(Cls ''B'', PyInt 2), (Cls ''C'', PyInt 3)])
     = InjectedType_init (Cls ''A'') [Cls ''A'', Cls ''B''] UNDEFINED"
proof -
  have same: "\<forall>cls. get_type_dependency registry_context [(Cls ''B'', PyInt 2), (Cls ''C'', PyInt 3)] cls
      = get_type_dependency registry_context [(Cls ''C'', PyInt 3), (Cls ''B'', PyInt 2)] cls"
    by (simp add: registry_context_def)
  show ?thesis
    using resolve_same_bindings_same_result [OF same, of type_name
        "InjectedType_init (Cls ''A'') [Cls ''A'', Cls ''B''] UNDEFINED"]
    by blast
qed

text \<open>
  C10. \<^verbatim>\<open>InjectedType\<close>'s constructor takes an empty candidate sequence as it is. Resolving such a
  descriptor performs no lookup; it returns the default when that is not \<open>UNDEFINED\<close> and raises
  \<open>MissingDependencyError\<close> otherwise.
\<close>

theorem resolve_empty_candidates:
  "types (InjectedType_init r [] d) = []
   \<and> InjectedType_resolve py_str ops (InjectedType_init r [] d) ctx =
       (if d \<noteq> UNDEFINED
        then \<lparr>returned = Inr d, lookups = [], self_after = InjectedType_init r [] d\<rparr>
        else \<lparr>returned = Inl (MissingDependencyError
                 (''Couldn't resolve injected type(s) '' @ py_str r @ '' to actual value'') r),
              lookups = [], self_after = InjectedType_init r [] d\<rparr>)"
  by (simp add: InjectedType_init_def InjectedType_resolve_def missing_message_def)

theorem resolve_empty_candidates_witness:
  "InjectedType_resolve type_name registry_context (InjectedType_init (Cls ''A'') [] (PyInt 7))
       [(Cls ''A'', PyInt 1)]
     = \<lparr>returned = Inr (PyInt 7), lookups = [],
        self_after = InjectedType_init (Cls ''A'') [] (PyInt 7)\<rparr>
   \<and> InjectedType_resolve type_name registry_context (InjectedType_init (Cls ''A'') [] UNDEFINED)
       [(Cls ''A'', PyInt 1)]
     = \<lparr>returned = Inl (MissingDependencyError
                         ''Couldn't resolve injected type(s) A to actual value'' (Cls ''A'')),
        lookups = [], self_after = InjectedType_init (Cls ''A'') [] UNDEFINED\<rparr>"
  using resolve_empty_candidates
          [of "Cls ''A''" "PyInt 7" type_name registry_context "[(Cls ''A'', PyInt 1)]"]
        resolve_empty_candidates
          [of "Cls ''A''" UNDEFINED type_name registry_context "[(Cls ''A'', PyInt 1)]"]
  by (simp add: type_name_def)

section \<open>Unions\<close>

lemma member_types_classes: "c \<in> set (member_types t) \<Longrightarrow> \<exists>n. c = Cls n"
  by (induction t arbitrary: c) auto

lemma member_types_flat:
  "\<forall>m \<in> set ms. \<exists>n. m = Cls n \<Longrightarrow> concat (map member_types ms) = ms"
  by (induction ms) auto

lemma for_cls_calls_prefix:
  "snd (for_cls ops ctx ts) = take (length (snd (for_cls ops ctx ts))) ts"
  by (induction ts) (auto simp: Let_def split: prod.splits)

lemma lookups_resolve:
  "lookups (InjectedType_resolve py_str ops self ctx) = snd (for_cls ops ctx (types self))"
  by (simp add: InjectedType_resolve_def split: prod.splits option.splits)

text \<open>
  C5. A declared union is expanded into its member types in declaration order, nested unions
  flattened: these are the candidates of the type-variant descriptor, and for a union of
  classes they are its members as written. Every candidate is a class, so the union form
  itself is not among them, and resolution looks up candidates only, from the first on in
  order: the union form is never looked up, whether the context binds it or not.
\<close>

theorem union_expanded_to_members:
  "types (declared_type (Union ms) d) = concat (map member_types ms)
   \<and> ((\<forall>m \<in> set ms. \<exists>n. m = Cls n) \<longrightarrow> types (declared_type (Union ms) d) = ms)
   \<and> (\<forall>c \<in> set (types (declared_type (Union ms) d)). \<exists>n. c = Cls n)
   \<and> Union ms \<notin> set (types (declared_type (Union ms) d))
   \<and> lookups (InjectedType_resolve py_str ops (declared_type (Union ms) d) ctx) =
       take (length (lookups (InjectedType_resolve py_str ops (declared_type (Union ms) d) ctx)))
         (types (declared_type (Union ms) d))
   \<and> Union ms \<notin> set (lookups (InjectedType_resolve py_str ops (declared_type (Union ms) d) ctx))"
proof -
  let ?self = "declared_type (Union ms) d"
  let ?R = "InjectedType_resolve py_str ops ?self ctx"
  have t: "types ?self = concat (map member_types ms)"
    by (simp add: declared_type_def InjectedType_init_def)
  have flat: "(\<forall>m \<in> set ms. \<exists>n. m = Cls n) \<longrightarrow> types ?self = ms"
    using t member_types_flat [of ms] by simp
  have cls: "\<forall>c \<in> set (types ?self). \<exists>n. c = Cls n"
  proof
    fix c assume "c \<in> set (types ?self)"
    with t have "c \<in> set (member_types (Union ms))" by simp
    then show "\<exists>n. c = Cls n" by (rule member_types_classes)
  qed
  then have notin: "Union ms \<notin> set (types ?self)" by auto
  have pre: "lookups ?R = take (length (lookups ?R)) (types ?self)"
    using for_cls_calls_prefix [of ops ctx "types ?self"] by (simp add: lookups_resolve)
  have "set (lookups ?R) \<subseteq> set (types ?self)"
    using pre set_take_subset [of "length (lookups ?R)" "types ?self"] by simp
  with notin have "Union ms \<notin> set (lookups ?R)" by blast
  with t flat cls notin pre show ?thesis by blast
qed

theorem union_expanded_to_members_witness:
  "types (declared_type (Union [Cls ''A'', Cls ''B'']) UNDEFINED) = [Cls ''A'', Cls ''B'']
   \<and> InjectedType_resolve type_name registry_context
        (declared_type (Union [Cls ''A'', Cls ''B'']) UNDEFINED)
        [(Union [Cls ''A'', Cls ''B''], PyInt 0), (Cls ''B'', PyInt 2)]
      = \<lparr>returned = Inr (PyInt 2), lookups = [Cls ''A'', Cls ''B''],
         self_after = declared_type (Union [Cls ''A'', Cls ''B'']) UNDEFINED\<rparr>
   \<and> types (declared_type (Union [Cls ''A'', Union [Cls ''B'', Cls ''C'']]) UNDEFINED)
      = [Cls ''A'', Cls ''B'', Cls ''C'']"
proof -
  have flat: "\<forall>m \<in> set [Cls ''A'', Cls ''B'']. \<exists>n. m = Cls n" by simp
  have "types (declared_type (Union [Cls ''A'', Cls ''B'']) UNDEFINED) = [Cls ''A'', Cls ''B'']"
    using union_expanded_to_members [of "[Cls ''A'', Cls ''B'']" UNDEFINED type_name registry_context
        "[(Union [Cls ''A'', Cls ''B''], PyInt 0), (Cls ''B'', PyInt 2)]"] flat
    by blast
  moreover have "InjectedType_resolve type_name registry_context
        (declared_type (Union [Cls ''A'', Cls ''B'']) UNDEFINED)
        [(Union [Cls ''A'', Cls ''B''], PyInt 0), (Cls ''B'', PyInt 2)]
      = \<lparr>returned = Inr (PyInt 2), lookups = [Cls ''A'', Cls ''B''],
         self_after = declared_type (Union [Cls ''A'', Cls ''B'']) UNDEFINED\<rparr>"
    by (simp add: declared_type_def InjectedType_init_def InjectedType_resolve_def
        registry_context_def NoneType_def)
  moreover have "types (declared_type (Union [Cls ''A'', Union [Cls ''B'', Cls ''C'']]) UNDEFINED)
      = [Cls ''A'', Cls ''B'', Cls ''C'']"
    using union_expanded_to_members [of "[Cls ''A'', Union [Cls ''B'', Cls ''C'']]" UNDEFINED
        type_name registry_context "[]"]
    by simp
  ultimately show ?thesis by blast
qed

text \<open>
  With \<^verbatim>\<open>None\<close> among the members and no default given, an unresolved union resolves to
  \<^verbatim>\<open>None\<close>.
\<close>

lemma declared_optional_defaults_to_None:
  "InjectedType_resolve type_name registry_context
      (declared_type (Union [Cls ''A'', NoneType]) UNDEFINED) [(Cls ''B'', PyInt 2)]
    = \<lparr>returned = Inr PyNone, lookups = [Cls ''A'', NoneType],
       self_after = declared_type (Union [Cls ''A'', NoneType]) UNDEFINED\<rparr>"
  by (simp add: declared_type_def InjectedType_init_def InjectedType_resolve_def
      registry_context_def NoneType_def)

section \<open>Callback-variant resolution\<close>

text \<open>
  C6. \<^verbatim>\<open>InjectedCallback.resolve\<close> is the outcome of the client's \<^verbatim>\<open>execute_with_ctx\<close> on the context
  and the stored callback, and \<^verbatim>\<open>InjectedCallback.resolve_async\<close> that of
  \<^verbatim>\<open>execute_with_ctx_async\<close>; the client is the one the context is linked to. An exception the
  client raises, \<open>AsyncOnlyError\<close> and \<open>MissingDependencyError\<close> among them, reaches the caller
  as it was raised.
\<close>

theorem callback_resolve_delegates:
  "InjectedCallback_resolve ops self ctx =
     execute_with_ctx (injection_client ops ctx) ctx (InjectedCallback.callback self)
   \<and> InjectedCallback_resolve_async ops self ctx =
     execute_with_ctx_async (injection_client ops ctx) ctx (InjectedCallback.callback self)
   \<and> (\<forall>e. execute_with_ctx (injection_client ops ctx) ctx (InjectedCallback.callback self) = Inl e
        \<longrightarrow> InjectedCallback_resolve ops self ctx = Inl e)
   \<and> (\<forall>e. execute_with_ctx_async (injection_client ops ctx) ctx (InjectedCallback.callback self) = Inl e
        \<longrightarrow> InjectedCallback_resolve_async ops self ctx = Inl e)"
  by (simp add: InjectedCallback_resolve_def InjectedCallback_resolve_async_def)

theorem callback_resolve_delegates_witness:
  "execute_with_ctx (injection_client registry_context []) []
      (InjectedCallback.callback (InjectedCallback_init ''get_db'')) = Inl AsyncOnlyError
   \<and> InjectedCallback_resolve registry_context (InjectedCallback_init ''get_db'') [] =
       Inl AsyncOnlyError
   \<and> InjectedCallback_resolve_async registry_context (InjectedCallback_init ''get_db'') [] =
       Inr (PyStr ''get_db'')"
  using callback_resolve_delegates [of registry_context "InjectedCallback_init ''get_db''" "[]"]
  by (simp add: registry_context_def registry_client_def InjectedCallback_init_def)

section \<open>The declaration marker\<close>

text \<open>
  C4. Constructing an \<^verbatim>\<open>InjectedDescriptor\<close> fails exactly when neither or both of \<^verbatim>\<open>callback\<close> and
  \<^verbatim>\<open>type\<close> are given (an argument is given when it is not \<^verbatim>\<open>None\<close>). With neither it raises
  \<open>ValueError\<close> with the text "Must specify one of `callback` or `type`", with both
  \<open>ValueError\<close> with the text "Only one of `callback` or `type` can be specified"; with exactly
  one it succeeds and stores both arguments.
\<close>

theorem descriptor_init_fails_iff:
  "((\<exists>e. InjectedDescriptor_init cb ty = Inl e) \<longleftrightarrow>
      (cb = None \<and> ty = None) \<or> (cb \<noteq> None \<and> ty \<noteq> None))
   \<and> InjectedDescriptor_init None None =
       Inl (ValueError ''Must specify one of `callback` or `type`'')
   \<and> InjectedDescriptor_init (Some f) (Some t) =
       Inl (ValueError ''Only one of `callback` or `type` can be specified'')
   \<and> InjectedDescriptor_init (Some f) None = Inr \<lparr>callback = Some f, type = None\<rparr>
   \<and> InjectedDescriptor_init None (Some t) = Inr \<lparr>callback = None, type = Some t\<rparr>"
  by (auto simp: InjectedDescriptor_init_def)

theorem descriptor_init_fails_iff_witness:
  "InjectedDescriptor_init None None =
       Inl (ValueError ''Must specify one of `callback` or `type`'')
   \<and> InjectedDescriptor_init (Some ''get_db'') (Some (Cls ''Database'')) =
       Inl (ValueError ''Only one of `callback` or `type` can be specified'')
   \<and> InjectedDescriptor_init (Some ''get_db'') None =
       Inr \<lparr>callback = Some ''get_db'', type = None\<rparr>
   \<and> InjectedDescriptor_init None (Some (Cls ''Database'')) =
       Inr \<lparr>callback = None, type = Some (Cls ''Database'')\<rparr>"
  using descriptor_init_fails_iff [of None None "''get_db''" "Cls ''Database''"]
  by simp

subsection \<open>Descriptors in the store\<close>

lemma exec_keeps_descriptor:
  assumes "a < length h" and "h ! a = ObjDescriptor d"
  shows "a < length (exec py_str ops h op) \<and> exec py_str ops h op ! a = ObjDescriptor d"
proof (cases op)
  case (TypeResolve b ctx)
  show ?thesis
  proof (cases "b = a")
    case True
    with assms TypeResolve show ?thesis by simp
  next
    case False
    with assms TypeResolve show ?thesis
      by (simp split: object.splits)
  qed
qed (use assms in \<open>simp_all add: nth_append split: sum.splits\<close>)

lemma run_snoc: "run py_str ops h (os @ [op]) = exec py_str ops (run py_str ops h os) op"
  by (simp add: run_def)

lemma run_append: "run py_str ops h (os @ os') = run py_str ops (run py_str ops h os) os'"
  by (simp add: run_def)

lemma run_keeps_descriptor:
  assumes "a < length h" and "h ! a = ObjDescriptor d"
  shows "a < length (run py_str ops h os) \<and> run py_str ops h os ! a = ObjDescriptor d"
proof (induction os rule: rev_induct)
  case Nil
  from assms show ?case by (simp add: run_def)
next
  case (snoc op os)
  then show ?case
    using exec_keeps_descriptor [of a "run py_str ops h os" d py_str ops op]
    by (simp add: run_snoc)
qed

lemma exec_descriptor_origin:
  assumes "a < length (exec py_str ops h op)" and "exec py_str ops h op ! a = ObjDescriptor d"
  shows "(a < length h \<and> h ! a = ObjDescriptor d) \<or> (\<exists>cb ty. InjectedDescriptor_init cb ty = Inr d)"
proof (cases op)
  case (NewInjectedCallback cb)
  with assms show ?thesis by (cases "a < length h") (auto simp: nth_append)
next
  case (NewInjectedType r ts d0)
  with assms show ?thesis by (cases "a < length h") (auto simp: nth_append)
next
  case (NewInjectedDescriptor cb ty)
  show ?thesis
  proof (cases "InjectedDescriptor_init cb ty")
    case (Inl e)
    with assms NewInjectedDescriptor show ?thesis by simp
  next
    case (Inr d0)
    with assms NewInjectedDescriptor show ?thesis
      by (cases "a < length h") (auto simp: nth_append)
  qed
next
  case (CallbackResolve b ctx)
  with assms show ?thesis by simp
next
  case (CallbackResolveAsync b ctx)
  with assms show ?thesis by simp
next
  case (TypeResolve b ctx)
  show ?thesis
  proof (cases "b < length h")
    case False
    with assms TypeResolve show ?thesis by simp
  next
    case True
    show ?thesis
    proof (cases "h ! b")
      case (ObjType self)
      with assms TypeResolve True show ?thesis
        by (cases "a = b") auto
    qed (use assms TypeResolve True in simp_all)
  qed
qed

lemma run_descriptor_constructed:
  "a < length (run py_str ops [] os) \<Longrightarrow> run py_str ops [] os ! a = ObjDescriptor d \<Longrightarrow>
     \<exists>cb ty. InjectedDescriptor_init cb ty = Inr d"
proof (induction os arbitrary: a d rule: rev_induct)
  case Nil
  then show ?case by (simp add: run_def)
next
  case (snoc op os)
  from snoc.prems have "(a < length (run py_str ops [] os) \<and> run py_str ops [] os ! a = ObjDescriptor d)
      \<or> (\<exists>cb ty. InjectedDescriptor_init cb ty = Inr d)"
    using exec_descriptor_origin [of a py_str ops "run py_str ops [] os" op d]
    by (simp add: run_snoc)
  with snoc.IH show ?case by blast
qed

lemma init_exactly_one:
  "InjectedDescriptor_init cb ty = Inr d \<Longrightarrow>
     callback d = cb \<and> type d = ty
     \<and> ((callback d \<noteq> None \<and> type d = None) \<or> (callback d = None \<and> type d \<noteq> None))"
  by (auto simp: InjectedDescriptor_init_def split: if_splits)

text \<open>
  C9. A successfully constructed \<^verbatim>\<open>InjectedDescriptor\<close> holds the two arguments it was given, and
  exactly one of its fields is populated: one is not \<^verbatim>\<open>None\<close> and the other is. This holds of
  every descriptor in a store the module's operations have built from the empty one, and
  whatever operations follow, constructors or resolutions, in any number and order, the
  descriptor stays at its address with both fields as they were. An assignment to a field
  from outside the module is not one of its operations.
\<close>

theorem descriptor_exactly_one_populated_and_immutable:
  "(InjectedDescriptor_init cb ty = Inr d \<longrightarrow>
      callback d = cb \<and> type d = ty
      \<and> ((callback d \<noteq> None \<and> type d = None) \<or> (callback d = None \<and> type d \<noteq> None)))
   \<and> (a < length (run py_str ops [] before) \<and> run py_str ops [] before ! a = ObjDescriptor d' \<longrightarrow>
      ((callback d' \<noteq> None \<and> type d' = None) \<or> (callback d' = None \<and> type d' \<noteq> None))
      \<and> (\<forall>after. a < length (run py_str ops [] (before @ after))
            \<and> run py_str ops [] (before @ after) ! a = ObjDescriptor d'))"
proof -
  have built: "InjectedDescriptor_init cb ty = Inr d \<longrightarrow>
      callback d = cb \<and> type d = ty
      \<and> ((callback d \<noteq> None \<and> type d = None) \<or> (callback d = None \<and> type d \<noteq> None))"
    using init_exactly_one [of cb ty d] by blast
  have stored: "((callback d' \<noteq> None \<and> type d' = None) \<or> (callback d' = None \<and> type d' \<noteq> None))
      \<and> (\<forall>after. a < length (run py_str ops [] (before @ after))
            \<and> run py_str ops [] (before @ after) ! a = ObjDescriptor d')"
    if h: "a < length (run py_str ops [] before) \<and> run py_str ops [] before ! a = ObjDescriptor d'"
  proof -
    from h obtain cb' ty' where "InjectedDescriptor_init cb' ty' = Inr d'"
      using run_descriptor_constructed [of a py_str ops before d'] by blast
    then have one: "(callback d' \<noteq> None \<and> type d' = None) \<or> (callback d' = None \<and> type d' \<noteq> None)"
      using init_exactly_one [of cb' ty' d'] by blast
    have "\<forall>after. a < length (run py_str ops [] (before @ after))
            \<and> run py_str ops [] (before @ after) ! a = ObjDescriptor d'"
      using h run_keeps_descriptor [of a "run py_str ops [] before" d' py_str ops]
      by (simp add: run_append)
    with one show ?thesis by blast
  qed
  from built stored show ?thesis by blast
qed
theorem descriptor_exactly_one_populated_and_immutable_witness:
  "InjectedDescriptor_init None (Some (Cls ''Database'')) =
      Inr \<lparr>callback = None, type = Some (Cls ''Database'')\<rparr>
   \<and> run type_name registry_context [] [NewInjectedDescriptor None (Some (Cls ''Database''))] ! 0 =
      ObjDescriptor \<lparr>callback = None, type = Some (Cls ''Database'')\<rparr>
   \<and> callback \<lparr>callback = None, type = Some (Cls ''Database'')\<rparr> = None
   \<and> type \<lparr>callback = None, type = Some (Cls ''Database'')\<rparr> \<noteq> None
   \<and> run type_name registry_context []
        ([NewInjectedDescriptor None (Some (Cls ''Database''))]
         @ [NewInjectedType (Cls ''A'') [Cls ''A''] UNDEFINED, TypeResolve 1 [], TypeResolve 0 [],
            NewInjectedDescriptor (Some ''get_db'') (Some (Cls ''Database'')),
            CallbackResolve 0 [], NewInjectedDescriptor (Some ''get_db'') None]) ! 0 =
      ObjDescriptor \<lparr>callback = None, type = Some (Cls ''Database'')\<rparr>"
proof -
  let ?d = "\<lparr>callback = None, type = Some (Cls ''Database'')\<rparr>"
  let ?before = "[NewInjectedDescriptor None (Some (Cls ''Database'')) :: registry operation]"
  have c: "InjectedDescriptor_init None (Some (Cls ''Database'')) = Inr ?d"
    by (simp add: InjectedDescriptor_init_def)
  have s: "0 < length (run type_name registry_context [] ?before)
      \<and> run type_name registry_context [] ?before ! 0 = ObjDescriptor ?d"
    by (simp add: run_def InjectedDescriptor_init_def)
  from c s show ?thesis
    using descriptor_exactly_one_populated_and_immutable
      [of None "Some (Cls ''Database'')" ?d 0 type_name registry_context ?before ?d]
    by blast
qed

end
